theory Spec2Isabelle
  imports Complex_Main "HOL-Library.Sublist"
begin

section \<open>Python values, exceptions and HTTP responses\<close>

text \<open>
  The two services (\<^verbatim>\<open>server/densepose-mock.py\<close> and \<^verbatim>\<open>server/densepose-service.py\<close>)
  exchange JSON. A parsed JSON document and the object handed to \<^verbatim>\<open>jsonify\<close> are Python
  values built from \<^verbatim>\<open>None\<close>, booleans, numbers, strings, lists and dicts. A dict is an
  association list in insertion order; lookup takes the first binding of a key.

  A Python float is represented by the rational number of the expression that produced it:
  every float of these programs is a literal or one correctly rounded division of two
  integers, so two floats are equal whenever their rationals are.
\<close>

datatype json =
    JNull
  | JBool bool
  | JInt int
  | JFloat rat
  | JStr string
  | JArr "json list"
  | JObj "(string \<times> json) list"

text \<open>An exception is its class together with the text that \<^verbatim>\<open>str(e)\<close> gives.\<close>

datatype exn =
    TypeError string
  | IndexError string
  | AttributeError string
  | KeyError string
  | LibraryError string

fun exn_str :: "exn \<Rightarrow> string" where
  "exn_str (TypeError m) = m"
| "exn_str (IndexError m) = m"
| "exn_str (AttributeError m) = m"
| "exn_str (KeyError m) = m"
| "exn_str (LibraryError m) = m"

text \<open>A name between apostrophes, as Python prints it in its messages.\<close>

definition quoted :: "string \<Rightarrow> string" where
  "quoted s = [CHR 0x27] @ s @ [CHR 0x27]"

text \<open>
  The name of an object's type, as \<^verbatim>\<open>type(x).__name__\<close> gives it. The texts of the built-in
  exceptions below are those of CPython 3.11 to 3.13.
\<close>

fun type_name :: "json \<Rightarrow> string" where
  "type_name JNull = ''NoneType''"
| "type_name (JBool b) = ''bool''"
| "type_name (JInt n) = ''int''"
| "type_name (JFloat q) = ''float''"
| "type_name (JStr s) = ''str''"
| "type_name (JArr xs) = ''list''"
| "type_name (JObj kv) = ''dict''"

text \<open>Sequencing of computations that may raise: the first exception wins.\<close>

fun and_then :: "exn + 'a \<Rightarrow> ('a \<Rightarrow> exn + 'b) \<Rightarrow> exn + 'b" where
  "and_then (Inl e) f = Inl e"
| "and_then (Inr x) f = f x"

text \<open>
  A response is the HTTP status with the object given to \<^verbatim>\<open>jsonify\<close>. A handler that
  returns \<^verbatim>\<open>jsonify(x)\<close> alone answers with status 200.
\<close>

type_synonym response = "nat \<times> json"

definition error_body :: "string \<Rightarrow> json" where
  "error_body msg = JObj [(''error'', JStr msg)]"

definition missing_image_message :: string where
  "missing_image_message =
     ''Request must include 'image' field with base64-encoded image data''"

text \<open>
  The handlers' \<^verbatim>\<open>except Exception as e\<close> clause: a raised exception becomes status 500
  with the text \<^verbatim>\<open>Error processing image: {str(e)}\<close>.
\<close>

fun catch_all :: "exn + response \<Rightarrow> response" where
  "catch_all (Inl e) = (500, error_body (''Error processing image: '' @ exn_str e))"
| "catch_all (Inr r) = r"

subsection \<open>The test \<^verbatim>\<open>not data or 'image' not in data\<close>\<close>

text \<open>Truth value of a Python object.\<close>

fun truthy :: "json \<Rightarrow> bool" where
  "truthy JNull = False"
| "truthy (JBool b) = b"
| "truthy (JInt n) = (n \<noteq> 0)"
| "truthy (JFloat q) = (q \<noteq> 0)"
| "truthy (JStr s) = (s \<noteq> [])"
| "truthy (JArr xs) = (xs \<noteq> [])"
| "truthy (JObj kv) = (kv \<noteq> [])"

text \<open>\<^verbatim>\<open>needle in haystack\<close> for two strings.\<close>

fun contains_str :: "string \<Rightarrow> string \<Rightarrow> bool" where
  "contains_str [] needle = (needle = [])"
| "contains_str (c # cs) needle = (prefix needle (c # cs) \<or> contains_str cs needle)"

text \<open>
  \<^verbatim>\<open>'image' in data\<close>: a key of a dict, an element of a list, a substring of a string;
  on any other object Python raises \<^verbatim>\<open>TypeError\<close>.
\<close>

fun image_in :: "json \<Rightarrow> exn + bool" where
  "image_in (JObj kv) = Inr (''image'' \<in> set (map fst kv))"
| "image_in (JArr xs) = Inr (JStr ''image'' \<in> set xs)"
| "image_in (JStr s) = Inr (contains_str s ''image'')"
| "image_in (JInt n) = Inl (TypeError ''argument of type 'int' is not iterable'')"
| "image_in (JFloat q) = Inl (TypeError ''argument of type 'float' is not iterable'')"
| "image_in (JBool b) = Inl (TypeError ''argument of type 'bool' is not iterable'')"
| "image_in JNull = Inl (TypeError ''argument of type 'NoneType' is not iterable'')"

text \<open>The whole test; \<^verbatim>\<open>or\<close> does not evaluate its right side when the left is true.\<close>

definition lacks_image :: "json \<Rightarrow> exn + bool" where
  "lacks_image data =
     (if \<not> truthy data then Inr True
      else and_then (image_in data) (\<lambda>b. Inr (\<not> b)))"

section \<open>The mock service\<close>

subsection \<open>Nested lists and the loops that fill them\<close>

text \<open>\<^verbatim>\<open>np.zeros((h, w), dtype=...).tolist()\<close>: \<open>h\<close> separate rows of \<open>w\<close> zeros.\<close>

definition zeros :: "nat \<Rightarrow> nat \<Rightarrow> ('a::zero) list list" where
  "zeros h w = replicate h (replicate w 0)"

text \<open>\<^verbatim>\<open>g[i][j]\<close> and \<^verbatim>\<open>g[i][j] = x\<close>; an index out of range raises \<^verbatim>\<open>IndexError\<close>.\<close>

definition get_item2 :: "'a list list \<Rightarrow> nat \<Rightarrow> nat \<Rightarrow> exn + 'a" where
  "get_item2 g i j =
     (if i < length g then
        (if j < length (g ! i) then Inr (g ! i ! j)
         else Inl (IndexError ''list index out of range''))
      else Inl (IndexError ''list index out of range''))"

definition set_item2 :: "'a list list \<Rightarrow> nat \<Rightarrow> nat \<Rightarrow> 'a \<Rightarrow> exn + 'a list list" where
  "set_item2 g i j x =
     (if i < length g then
        (if j < length (g ! i) then Inr (g[i := (g ! i)[j := x]])
         else Inl (IndexError ''list assignment index out of range''))
      else Inl (IndexError ''list index out of range''))"

text \<open>A \<^verbatim>\<open>for\<close> loop over a list of indices, threading the mutated state.\<close>

fun for_each :: "nat list \<Rightarrow> (nat \<Rightarrow> 's \<Rightarrow> exn + 's) \<Rightarrow> 's \<Rightarrow> exn + 's" where
  "for_each [] body s = Inr s"
| "for_each (i # is) body s = and_then (body i s) (for_each is body)"

text \<open>
  \<^verbatim>\<open>for i in range(r0, r1): for j in range(c0, c1): body_parts[i][j] = x\<close>
\<close>

definition fill_region ::
  "nat \<Rightarrow> nat \<Rightarrow> nat \<Rightarrow> nat \<Rightarrow> 'a \<Rightarrow> 'a list list \<Rightarrow> exn + 'a list list" where
  "fill_region r0 r1 c0 c1 x g =
     for_each [r0..<r1] (\<lambda>i. for_each [c0..<c1] (\<lambda>j g'. set_item2 g' i j x)) g"

text \<open>The three regions, in the order of the source: torso, left arm, right arm.\<close>

definition fill_body_parts :: "int list list \<Rightarrow> exn + int list list" where
  "fill_body_parts g =
     and_then (fill_region 100 150 100 200 1 g) (\<lambda>g1.
     and_then (fill_region 80 100 100 130 10 g1) (\<lambda>g2.
     fill_region 150 170 100 130 11 g2))"

text \<open>
  The body of the last loop:
  \<^verbatim>\<open>if body_parts[i][j] > 0: u_coords[i][j] = (i % 100) / 100.0; v_coords[i][j] = (j % 100) / 100.0\<close>
\<close>

definition uv_cell ::
  "int list list \<Rightarrow> nat \<Rightarrow> nat \<Rightarrow> rat list list \<times> rat list list
     \<Rightarrow> exn + rat list list \<times> rat list list" where
  "uv_cell body_parts i j uv =
     and_then (get_item2 body_parts i j) (\<lambda>b.
       if b > 0 then
         and_then (set_item2 (fst uv) i j (of_nat (i mod 100) / 100)) (\<lambda>u'.
         and_then (set_item2 (snd uv) i j (of_nat (j mod 100) / 100)) (\<lambda>v'.
         Inr (u', v')))
       else Inr uv)"

definition fill_uv ::
  "nat \<Rightarrow> int list list \<Rightarrow> rat list list \<times> rat list list
     \<Rightarrow> exn + rat list list \<times> rat list list" where
  "fill_uv n body_parts uv =
     for_each [0..<n] (\<lambda>i. for_each [0..<n] (\<lambda>j. uv_cell body_parts i j)) uv"

subsection \<open>The handler\<close>

text \<open>A list of lists of integers (of floats) as the Python object it is.\<close>

definition int_rows :: "int list list \<Rightarrow> json" where
  "int_rows g = JArr (map (\<lambda>row. JArr (map JInt row)) g)"

definition float_rows :: "rat list list \<Rightarrow> json" where
  "float_rows g = JArr (map (\<lambda>row. JArr (map JFloat row)) g)"

text \<open>
  The source first builds \<^verbatim>\<open>mock_result\<close> around three zero grids and then writes into
  those grids through the aliases \<^verbatim>\<open>body_parts\<close>, \<^verbatim>\<open>u_coords\<close> and \<^verbatim>\<open>v_coords\<close>; the dict
  holds the same list objects, so what is serialised has the grids as the loops left them.
  Each grid sits inside a one-element list: \<^verbatim>\<open>"body_parts": [ np.zeros(...).tolist() ]\<close>.
\<close>

definition mock_result_of :: "int list list \<Rightarrow> rat list list \<Rightarrow> rat list list \<Rightarrow> json" where
  "mock_result_of body_parts u_coords v_coords =
     JObj [
       (''num_instances'', JInt 1),
       (''instances'', JArr [
          JObj [
            (''body_parts'', JArr [int_rows body_parts]),
            (''u_coordinates'', JArr [float_rows u_coords]),
            (''v_coordinates'', JArr [float_rows v_coords]),
            (''bbox'', JArr [JInt 50, JInt 50, JInt 200, JInt 400]),
            (''score'', JFloat (98 / 100))
          ]])
     ]"

definition build_mock_result :: "exn + json" where
  "build_mock_result =
     and_then (fill_body_parts (zeros 256 256)) (\<lambda>body_parts.
     and_then (fill_uv 256 body_parts (zeros 256 256, zeros 256 256)) (\<lambda>uv.
     Inr (mock_result_of body_parts (fst uv) (snd uv))))"

text \<open>
  \<^verbatim>\<open>analyze_pose\<close> of the mock. Its argument is the outcome of \<^verbatim>\<open>request.get_json()\<close>:
  the parsed body (\<^verbatim>\<open>None\<close> when Flask finds no JSON), or the exception Flask raised.
\<close>

definition mock_analyze_pose :: "exn + json \<Rightarrow> response" where
  "mock_analyze_pose get_json =
     catch_all (
       and_then get_json (\<lambda>data.
       and_then (lacks_image data) (\<lambda>missing.
         if missing then Inr (400, error_body missing_image_message)
         else and_then build_mock_result (\<lambda>mock_result. Inr (200, mock_result)))))"

section \<open>The DensePose service\<close>

subsection \<open>What the libraries give\<close>

text \<open>
  The service calls Detectron2, \<^verbatim>\<open>base64\<close>, NumPy and OpenCV. Their results are inputs of
  the model. An image is the array OpenCV decodes (rows of pixels of three channels), an
  instance's DensePose output is the three tensors after \<^verbatim>\<open>.numpy().tolist()\<close>, and
  \<^verbatim>\<open>instances.has(name)\<close> says whether a field is there. The field \<open>imdecode\<close> stands for
  \<^verbatim>\<open>np.frombuffer\<close> followed by \<^verbatim>\<open>cv2.imdecode\<close>, which returns \<^verbatim>\<open>None\<close> for bytes that are
  not an image.
\<close>

type_synonym image = "nat list list list"

datatype densepose_result =
  DensePoseResult (fine_segm: json) (u_data: json) (v_data: json)

record instances =
  pred_densepose :: "densepose_result list option"
  pred_boxes :: "rat list list option"
  scores :: "rat list option"

text \<open>The predictor object: called on an image, it returns the instances or raises.\<close>

type_synonym predictor = "image \<Rightarrow> exn + instances"

record libraries =
  load_model :: "exn + predictor"
  b64decode :: "string \<Rightarrow> exn + nat list"
  imdecode :: "nat list \<Rightarrow> exn + image option"

text \<open>The module's global variable.\<close>

record service_state =
  predictor :: "predictor option"

text \<open>
  \<^verbatim>\<open>setup_densepose_predictor\<close>: builds the configuration and the predictor
  (\<open>load_model\<close>) and stores it in the global.
\<close>

definition setup_densepose_predictor :: "libraries \<Rightarrow> service_state \<Rightarrow> exn + service_state" where
  "setup_densepose_predictor lib st =
     and_then (load_model lib) (\<lambda>p. Inr (st\<lparr>predictor := Some p\<rparr>))"

subsection \<open>\<^verbatim>\<open>process_image\<close>\<close>

text \<open>One pass of the loop over the instances: the dict appended to \<^verbatim>\<open>results\<close>.\<close>

definition instance_dict ::
  "densepose_result list \<Rightarrow> rat list list \<Rightarrow> rat list \<Rightarrow> nat \<Rightarrow> json" where
  "instance_dict densepose_results boxes scores' i =
     (let densepose_result = densepose_results ! i;
          box = (if i < length boxes then JArr (map JFloat (boxes ! i)) else JArr []);
          score = (if i < length scores' then scores' ! i else 0)
      in JObj [
           (''body_parts'', fine_segm densepose_result),
           (''u_coordinates'', u_data densepose_result),
           (''v_coordinates'', v_data densepose_result),
           (''bbox'', box),
           (''score'', JFloat score)
         ])"

text \<open>
  Calling a predictor that is \<^verbatim>\<open>None\<close> raises \<^verbatim>\<open>TypeError\<close>. The index \<open>i\<close> of the loop runs
  over \<^verbatim>\<open>range(len(densepose_results))\<close>, so \<^verbatim>\<open>densepose_results[i]\<close> is in range.
\<close>

definition process_image :: "service_state \<Rightarrow> image \<Rightarrow> exn + json" where
  "process_image st image_data =
     (case predictor st of
        None \<Rightarrow> Inl (TypeError (quoted ''NoneType'' @ '' object is not callable''))
      | Some p \<Rightarrow>
          and_then (p image_data) (\<lambda>insts.
            case pred_densepose insts of
              None \<Rightarrow> Inr (error_body ''No DensePose predictions available for this image'')
            | Some densepose_results \<Rightarrow>
                (let boxes = (case pred_boxes insts of Some b \<Rightarrow> b | None \<Rightarrow> []);
                     scores' = (case scores insts of Some s \<Rightarrow> s | None \<Rightarrow> []);
                     results = fold (\<lambda>i results.
                                   results @ [instance_dict densepose_results boxes scores' i])
                                 [0..<length densepose_results] []
                 in Inr (JObj [
                      (''num_instances'', JInt (int (length results))),
                      (''instances'', JArr results)
                    ]))))"

subsection \<open>Reading the image out of the request\<close>

text \<open>\<^verbatim>\<open>data['image']\<close>\<close>

fun get_image :: "json \<Rightarrow> exn + json" where
  "get_image (JObj kv) =
     (case map_of kv ''image'' of
        Some x \<Rightarrow> Inr x
      | None \<Rightarrow> Inl (KeyError (quoted ''image'')))"
| "get_image (JArr xs) = Inl (TypeError ''list indices must be integers or slices, not str'')"
| "get_image (JStr s) =
     Inl (TypeError (''string indices must be integers, not '' @ quoted ''str''))"
| "get_image (JInt n) = Inl (TypeError (quoted ''int'' @ '' object is not subscriptable''))"
| "get_image (JFloat q) = Inl (TypeError (quoted ''float'' @ '' object is not subscriptable''))"
| "get_image (JBool b) = Inl (TypeError (quoted ''bool'' @ '' object is not subscriptable''))"
| "get_image JNull = Inl (TypeError (quoted ''NoneType'' @ '' object is not subscriptable''))"

text \<open>\<^verbatim>\<open>s.split(sep)\<close> for a one-character separator.\<close>

fun split_str :: "char \<Rightarrow> string \<Rightarrow> string list" where
  "split_str sep [] = [[]]"
| "split_str sep (c # cs) =
     (if c = sep then [] # split_str sep cs
      else (case split_str sep cs of
              w # ws \<Rightarrow> (c # w) # ws
            | [] \<Rightarrow> [[c]]))"

text \<open>
  \<^verbatim>\<open>if image_data.startswith('data:image'): image_data = image_data.split(',')[1]\<close>.
  Only a string has \<^verbatim>\<open>startswith\<close>; a prefix with no comma after it leaves a one-element
  list, and \<^verbatim>\<open>[1]\<close> raises.
\<close>

fun strip_data_url :: "json \<Rightarrow> exn + string" where
  "strip_data_url (JStr s) =
     (if prefix ''data:image'' s then
        (let parts = split_str CHR '','' s
         in if 1 < length parts then Inr (parts ! 1)
            else Inl (IndexError ''list index out of range''))
      else Inr s)"
| "strip_data_url x =
     Inl (AttributeError
            (quoted (type_name x) @ '' object has no attribute '' @ quoted ''startswith''))"

subsection \<open>The handler\<close>

text \<open>
  \<^verbatim>\<open>analyze_pose\<close> of the service, from the global state and the outcome of
  \<^verbatim>\<open>request.get_json()\<close> to the new state and the response. The predictor is set up before
  the request is looked at, outside the \<^verbatim>\<open>try\<close> that answers 500 with
  \<^verbatim>\<open>Error processing image\<close>.
\<close>

definition handle_request :: "libraries \<Rightarrow> service_state \<Rightarrow> exn + json \<Rightarrow> response" where
  "handle_request lib st get_json =
     catch_all (
       and_then get_json (\<lambda>data.
       and_then (lacks_image data) (\<lambda>missing.
         if missing then Inr (400, error_body missing_image_message)
         else
           and_then (get_image data) (\<lambda>image_field.
           and_then (strip_data_url image_field) (\<lambda>image_data.
           and_then (b64decode lib image_data) (\<lambda>image_bytes.
           and_then (imdecode lib image_bytes) (\<lambda>img.
             case img of
               None \<Rightarrow> Inr (400, error_body ''Failed to decode image'')
             | Some img' \<Rightarrow>
                 and_then (process_image st img') (\<lambda>results. Inr (200, results)))))))))"

definition analyze_pose ::
  "libraries \<Rightarrow> service_state \<Rightarrow> exn + json \<Rightarrow> service_state \<times> response" where
  "analyze_pose lib st get_json =
     (case predictor st of
        None \<Rightarrow>
          (case setup_densepose_predictor lib st of
             Inl e \<Rightarrow>
               (st, (500, error_body (''Failed to initialize DensePose predictor: '' @ exn_str e)))
           | Inr st' \<Rightarrow> (st', handle_request lib st' get_json))
      | Some p \<Rightarrow> (st, handle_request lib st get_json))"

section \<open>Reading a response\<close>

text \<open>
  What a client does with the decoded body: \<^verbatim>\<open>body[k]\<close> on an object, \<^verbatim>\<open>body[i]\<close> on an
  array. A missing key, an index out of range or the wrong kind of value gives \<open>None\<close>.
\<close>

fun jget :: "string \<Rightarrow> json \<Rightarrow> json option" where
  "jget k (JObj kv) = map_of kv k"
| "jget k _ = None"

fun jnth :: "nat \<Rightarrow> json \<Rightarrow> json option" where
  "jnth i (JArr xs) = (if i < length xs then Some (xs ! i) else None)"
| "jnth i _ = None"

text \<open>The elements of \<^verbatim>\<open>body["instances"]\<close>, when it is an array.\<close>

fun elements :: "json \<Rightarrow> json list option" where
  "elements (JArr xs) = Some xs"
| "elements _ = None"

definition instance_list :: "json \<Rightarrow> json list option" where
  "instance_list body = Option.bind (jget ''instances'' body) elements"

text \<open>\<^verbatim>\<open>body["instances"][0][field]\<close>\<close>

definition instance_field :: "string \<Rightarrow> json \<Rightarrow> json option" where
  "instance_field field body =
     Option.bind (jget ''instances'' body) (\<lambda>insts.
     Option.bind (jnth 0 insts) (jget field))"

text \<open>\<^verbatim>\<open>body["instances"][0][field][0][r][c]\<close>: the entry of a grid at row \<open>r\<close>, column \<open>c\<close>.\<close>

definition grid_entry :: "string \<Rightarrow> nat \<Rightarrow> nat \<Rightarrow> json \<Rightarrow> json option" where
  "grid_entry field r c body =
     Option.bind (instance_field field body) (\<lambda>grids.
     Option.bind (jnth 0 grids) (\<lambda>grid.
     Option.bind (jnth r grid) (jnth c)))"

fun is_int :: "json \<Rightarrow> bool" where
  "is_int (JInt n) = True"
| "is_int _ = False"

fun is_float :: "json \<Rightarrow> bool" where
  "is_float (JFloat q) = True"
| "is_float _ = False"

fun is_row :: "(json \<Rightarrow> bool) \<Rightarrow> nat \<Rightarrow> json \<Rightarrow> bool" where
  "is_row cell w (JArr cells) = (length cells = w \<and> list_all cell cells)"
| "is_row cell w _ = False"

text \<open>A two-dimensional grid: \<open>h\<close> rows, each of \<open>w\<close> cells of the given kind.\<close>

fun is_grid :: "(json \<Rightarrow> bool) \<Rightarrow> nat \<Rightarrow> nat \<Rightarrow> json \<Rightarrow> bool" where
  "is_grid cell h w (JArr rows) = (length rows = h \<and> list_all (is_row cell w) rows)"
| "is_grid cell h w _ = False"

text \<open>A field of the first instance that is a grid, and one that is a list of a single grid.\<close>

fun wraps_grid :: "(json \<Rightarrow> bool) \<Rightarrow> nat \<Rightarrow> nat \<Rightarrow> json \<Rightarrow> bool" where
  "wraps_grid cell h w (JArr [g]) = is_grid cell h w g"
| "wraps_grid cell h w _ = False"

definition field_is_grid :: "(json \<Rightarrow> bool) \<Rightarrow> nat \<Rightarrow> nat \<Rightarrow> string \<Rightarrow> json \<Rightarrow> bool" where
  "field_is_grid cell h w field body =
     (case instance_field field body of
        Some x \<Rightarrow> is_grid cell h w x
      | None \<Rightarrow> False)"

definition field_wraps_grid :: "(json \<Rightarrow> bool) \<Rightarrow> nat \<Rightarrow> nat \<Rightarrow> string \<Rightarrow> json \<Rightarrow> bool" where
  "field_wraps_grid cell h w field body =
     (case instance_field field body of
        Some x \<Rightarrow> wraps_grid cell h w x
      | None \<Rightarrow> False)"

section \<open>Closed forms of the mock grids\<close>

text \<open>The grid whose entry at row \<open>r\<close>, column \<open>c\<close> is \<open>f r c\<close>.\<close>

definition grid_of :: "nat \<Rightarrow> nat \<Rightarrow> (nat \<Rightarrow> nat \<Rightarrow> 'a) \<Rightarrow> 'a list list" where
  "grid_of h w f = map (\<lambda>r. map (f r) [0..<w]) [0..<h]"

text \<open>What the three region loops leave at a cell; a later loop overwrites an earlier one.\<close>

definition part_at :: "nat \<Rightarrow> nat \<Rightarrow> int" where
  "part_at r c =
     (if 150 \<le> r \<and> r < 170 \<and> 100 \<le> c \<and> c < 130 then 11
      else if 80 \<le> r \<and> r < 100 \<and> 100 \<le> c \<and> c < 130 then 10
      else if 100 \<le> r \<and> r < 150 \<and> 100 \<le> c \<and> c < 200 then 1
      else 0)"

definition u_at :: "nat \<Rightarrow> nat \<Rightarrow> rat" where
  "u_at r c = (if part_at r c > 0 then of_nat (r mod 100) / 100 else 0)"

definition v_at :: "nat \<Rightarrow> nat \<Rightarrow> rat" where
  "v_at r c = (if part_at r c > 0 then of_nat (c mod 100) / 100 else 0)"

definition closed_mock_result :: json where
  "closed_mock_result =
     mock_result_of (grid_of 256 256 part_at) (grid_of 256 256 u_at) (grid_of 256 256 v_at)"

section \<open>Stand-ins for the libraries\<close>

text \<open>
  To run the service's handler on a concrete request the libraries need values. The
  stand-in decoder rejects a string whose length is not a multiple of four, as
  \<^verbatim>\<open>base64.b64decode\<close> does (\<^verbatim>\<open>Incorrect padding\<close>), and otherwise returns the character
  codes; the stand-in image decoder returns \<^verbatim>\<open>None\<close> on an empty buffer and a one-row image
  otherwise.
\<close>

definition stub_b64decode :: "string \<Rightarrow> exn + nat list" where
  "stub_b64decode s =
     (if length s mod 4 = 0 then Inr (map of_char s)
      else Inl (LibraryError ''Incorrect padding''))"

definition stub_imdecode :: "nat list \<Rightarrow> exn + image option" where
  "stub_imdecode bytes = (if bytes = [] then Inr None else Inr (Some [[bytes]]))"

definition stub_libraries :: "exn + predictor \<Rightarrow> libraries" where
  "stub_libraries model =
     \<lparr>load_model = model, b64decode = stub_b64decode, imdecode = stub_imdecode\<rparr>"

text \<open>A model that finds one person, one that finds nobody, and one whose call raises.\<close>

definition one_person :: instances where
  "one_person =
     \<lparr>pred_densepose = Some [DensePoseResult (JArr [JArr [JInt 1]])
                                              (JArr [JArr [JFloat (1 / 2)]])
                                              (JArr [JArr [JFloat (1 / 4)]])],
      pred_boxes = Some [[10, 20, 110, 220]],
      scores = Some [9 / 10]\<rparr>"

definition nobody :: instances where
  "nobody = \<lparr>pred_densepose = None, pred_boxes = Some [], scores = Some []\<rparr>"

definition finds :: "instances \<Rightarrow> predictor" where
  "finds insts = (\<lambda>img. Inr insts)"

definition out_of_memory :: predictor where
  "out_of_memory = (\<lambda>img. Inl (LibraryError ''out of memory''))"

definition with_image :: "string \<Rightarrow> exn + json" where
  "with_image s = Inr (JObj [(''image'', JStr s)])"

section \<open>The loops compute the closed forms\<close>

lemma length_grid_of: "length (grid_of h w f) = h"
  by (simp add: grid_of_def)

lemma nth_grid_of: "r < h \<Longrightarrow> grid_of h w f ! r = map (f r) [0..<w]"
  by (simp add: grid_of_def)

lemma zeros_grid_of: "zeros h w = grid_of h w (\<lambda>r c. 0)"
  by (simp add: zeros_def grid_of_def list_eq_iff_nth_eq)

lemma get_item2_grid_of:
  "i < h \<Longrightarrow> j < w \<Longrightarrow> get_item2 (grid_of h w f) i j = Inr (f i j)"
  by (simp add: get_item2_def length_grid_of nth_grid_of)

lemma set_item2_grid_of:
  assumes "i < h" and "j < w"
  shows "set_item2 (grid_of h w f) i j x =
           Inr (grid_of h w (\<lambda>r c. if r = i \<and> c = j then x else f r c))"
proof -
  have "(grid_of h w f)[i := (grid_of h w f ! i)[j := x]] =
          grid_of h w (\<lambda>r c. if r = i \<and> c = j then x else f r c)"
  proof (rule nth_equalityI)
    show "length ((grid_of h w f)[i := (grid_of h w f ! i)[j := x]]) =
            length (grid_of h w (\<lambda>r c. if r = i \<and> c = j then x else f r c))"
      by (simp add: length_grid_of)
  next
    fix r
    assume "r < length ((grid_of h w f)[i := (grid_of h w f ! i)[j := x]])"
    then have r: "r < h" by (simp add: length_grid_of)
    show "(grid_of h w f)[i := (grid_of h w f ! i)[j := x]] ! r =
            grid_of h w (\<lambda>r c. if r = i \<and> c = j then x else f r c) ! r"
      using r assms
      by (cases "r = i") (simp_all add: length_grid_of nth_grid_of list_eq_iff_nth_eq nth_list_update)
  qed
  with assms show ?thesis
    by (simp add: set_item2_def length_grid_of nth_grid_of)
qed

lemma for_each_append:
  "for_each (xs @ ys) body s = and_then (for_each xs body s) (for_each ys body)"
proof (induction xs arbitrary: s)
  case Nil
  show ?case by simp
next
  case (Cons i xs)
  show ?case by (cases "body i s") (simp_all add: Cons.IH)
qed

lemma fill_row_grid_of:
  assumes "i < h"
  shows "c1 \<le> w \<Longrightarrow>
         for_each [c0..<c1] (\<lambda>j g. set_item2 g i j x) (grid_of h w f) =
           Inr (grid_of h w (\<lambda>r c. if r = i \<and> c0 \<le> c \<and> c < c1 then x else f r c))"
proof (induction c1)
  case 0
  show ?case by simp
next
  case (Suc c1)
  show ?case
  proof (cases "c0 \<le> c1")
    case True
    have eq: "(\<lambda>r c. if r = i \<and> c = c1 then x
                     else if r = i \<and> c0 \<le> c \<and> c < c1 then x else f r c) =
              (\<lambda>r c. if r = i \<and> c0 \<le> c \<and> c < Suc c1 then x else f r c)"
      using True by (auto simp: fun_eq_iff)
    from Suc True assms show ?thesis
      by (simp add: for_each_append set_item2_grid_of eq)
  next
    case False
    then have "(\<lambda>r c. if r = i \<and> c0 \<le> c \<and> c < Suc c1 then x else f r c) = f"
      by (auto simp: fun_eq_iff)
    with False show ?thesis by simp
  qed
qed

lemma fill_region_grid_of:
  assumes "c1 \<le> w"
  shows "r1 \<le> h \<Longrightarrow>
         fill_region r0 r1 c0 c1 x (grid_of h w f) =
           Inr (grid_of h w (\<lambda>r c. if r0 \<le> r \<and> r < r1 \<and> c0 \<le> c \<and> c < c1 then x else f r c))"
  unfolding fill_region_def
proof (induction r1)
  case 0
  show ?case by simp
next
  case (Suc r1)
  show ?case
  proof (cases "r0 \<le> r1")
    case True
    have eq: "(\<lambda>r c. if r = r1 \<and> c0 \<le> c \<and> c < c1 then x
                     else if r0 \<le> r \<and> r < r1 \<and> c0 \<le> c \<and> c < c1 then x else f r c) =
              (\<lambda>r c. if r0 \<le> r \<and> r < Suc r1 \<and> c0 \<le> c \<and> c < c1 then x else f r c)"
      using True by (auto simp: fun_eq_iff)
    from Suc True assms show ?thesis
      by (simp add: for_each_append fill_row_grid_of eq)
  next
    case False
    then have "(\<lambda>r c. if r0 \<le> r \<and> r < Suc r1 \<and> c0 \<le> c \<and> c < c1 then x else f r c) = f"
      by (auto simp: fun_eq_iff)
    with False show ?thesis by simp
  qed
qed


lemma fill_body_parts_zeros:
  "fill_body_parts (zeros 256 256) = Inr (grid_of 256 256 part_at)"
proof -
  have "(\<lambda>r c. if 150 \<le> r \<and> r < 170 \<and> 100 \<le> c \<and> c < 130 then 11
               else if 80 \<le> r \<and> r < 100 \<and> 100 \<le> c \<and> c < 130 then 10
               else if 100 \<le> r \<and> r < 150 \<and> 100 \<le> c \<and> c < 200 then 1
               else (0::int)) = part_at"
    by (simp add: fun_eq_iff part_at_def)
  then show ?thesis
    by (simp add: fill_body_parts_def zeros_grid_of fill_region_grid_of)
qed

lemma uv_cell_grid_of:
  assumes "i < n" and "j < n"
  shows "uv_cell (grid_of n n fb) i j (grid_of n n fu, grid_of n n fv) =
           Inr (grid_of n n (\<lambda>r c. if r = i \<and> c = j \<and> fb r c > 0
                                    then of_nat (r mod 100) / 100 else fu r c),
                grid_of n n (\<lambda>r c. if r = i \<and> c = j \<and> fb r c > 0
                                    then of_nat (c mod 100) / 100 else fv r c))"
proof (cases "fb i j > 0")
  case True
  have "(\<lambda>r c. if r = i \<and> c = j then of_nat (i mod 100) / 100 else fu r c) =
        (\<lambda>r c. if r = i \<and> c = j \<and> fb r c > 0 then of_nat (r mod 100) / 100 else fu r c)"
    using True by (auto simp: fun_eq_iff)
  moreover have "(\<lambda>r c. if r = i \<and> c = j then of_nat (j mod 100) / 100 else fv r c) =
        (\<lambda>r c. if r = i \<and> c = j \<and> fb r c > 0 then of_nat (c mod 100) / 100 else fv r c)"
    using True by (auto simp: fun_eq_iff)
  ultimately show ?thesis
    using assms True by (simp add: uv_cell_def get_item2_grid_of set_item2_grid_of)
next
  case False
  have "(\<lambda>r c. if r = i \<and> c = j \<and> fb r c > 0 then of_nat (r mod 100) / 100 else fu r c) = fu"
    using False by (auto simp: fun_eq_iff)
  moreover have "(\<lambda>r c. if r = i \<and> c = j \<and> fb r c > 0 then of_nat (c mod 100) / 100 else fv r c) = fv"
    using False by (auto simp: fun_eq_iff)
  ultimately show ?thesis
    using assms False by (simp add: uv_cell_def get_item2_grid_of)
qed

lemma uv_row_grid_of:
  assumes "i < n"
  shows "c1 \<le> n \<Longrightarrow>
         for_each [0..<c1] (\<lambda>j. uv_cell (grid_of n n fb) i j) (grid_of n n fu, grid_of n n fv) =
           Inr (grid_of n n (\<lambda>r c. if r = i \<and> c < c1 \<and> fb r c > 0
                                    then of_nat (r mod 100) / 100 else fu r c),
                grid_of n n (\<lambda>r c. if r = i \<and> c < c1 \<and> fb r c > 0
                                    then of_nat (c mod 100) / 100 else fv r c))"
proof (induction c1)
  case 0
  show ?case by simp
next
  case (Suc c1)
  have "(\<lambda>r c. if r = i \<and> c = c1 \<and> fb r c > 0 then of_nat (r mod 100) / 100
               else if r = i \<and> c < c1 \<and> fb r c > 0 then of_nat (r mod 100) / 100 else fu r c) =
        (\<lambda>r c. if r = i \<and> c < Suc c1 \<and> fb r c > 0 then of_nat (r mod 100) / 100 else fu r c)"
    by (auto simp: fun_eq_iff less_Suc_eq)
  moreover have "(\<lambda>r c. if r = i \<and> c = c1 \<and> fb r c > 0 then of_nat (c mod 100) / 100
               else if r = i \<and> c < c1 \<and> fb r c > 0 then of_nat (c mod 100) / 100 else fv r c) =
        (\<lambda>r c. if r = i \<and> c < Suc c1 \<and> fb r c > 0 then of_nat (c mod 100) / 100 else fv r c)"
    by (auto simp: fun_eq_iff less_Suc_eq)
  ultimately show ?case
    using Suc assms by (simp add: for_each_append uv_cell_grid_of)
qed

lemma uv_rows_grid_of:
  "r1 \<le> n \<Longrightarrow>
   for_each [0..<r1] (\<lambda>i. for_each [0..<n] (\<lambda>j. uv_cell (grid_of n n fb) i j))
       (grid_of n n fu, grid_of n n fv) =
     Inr (grid_of n n (\<lambda>r c. if r < r1 \<and> c < n \<and> fb r c > 0
                              then of_nat (r mod 100) / 100 else fu r c),
          grid_of n n (\<lambda>r c. if r < r1 \<and> c < n \<and> fb r c > 0
                              then of_nat (c mod 100) / 100 else fv r c))"
proof (induction r1)
  case 0
  show ?case by simp
next
  case (Suc r1)
  have "(\<lambda>r c. if r = r1 \<and> c < n \<and> fb r c > 0 then of_nat (r mod 100) / 100
               else if r < r1 \<and> c < n \<and> fb r c > 0 then of_nat (r mod 100) / 100 else fu r c) =
        (\<lambda>r c. if r < Suc r1 \<and> c < n \<and> fb r c > 0 then of_nat (r mod 100) / 100 else fu r c)"
    by (auto simp: fun_eq_iff less_Suc_eq)
  moreover have "(\<lambda>r c. if r = r1 \<and> c < n \<and> fb r c > 0 then of_nat (c mod 100) / 100
               else if r < r1 \<and> c < n \<and> fb r c > 0 then of_nat (c mod 100) / 100 else fv r c) =
        (\<lambda>r c. if r < Suc r1 \<and> c < n \<and> fb r c > 0 then of_nat (c mod 100) / 100 else fv r c)"
    by (auto simp: fun_eq_iff less_Suc_eq)
  ultimately show ?case
    using Suc by (simp add: for_each_append uv_row_grid_of)
qed

lemma grid_of_cong:
  "(\<And>r c. r < h \<Longrightarrow> c < w \<Longrightarrow> f r c = g r c) \<Longrightarrow> grid_of h w f = grid_of h w g"
  by (simp add: grid_of_def)

lemma fill_uv_painted:
  "fill_uv 256 (grid_of 256 256 part_at) (zeros 256 256, zeros 256 256) =
     Inr (grid_of 256 256 u_at, grid_of 256 256 v_at)"
proof -
  have "grid_of 256 256 (\<lambda>r c. if r < 256 \<and> c < 256 \<and> part_at r c > 0
                                then of_nat (r mod 100) / 100 else (0::rat)) =
        grid_of 256 256 u_at"
    by (rule grid_of_cong) (simp add: u_at_def)
  moreover have "grid_of 256 256 (\<lambda>r c. if r < 256 \<and> c < 256 \<and> part_at r c > 0
                                then of_nat (c mod 100) / 100 else (0::rat)) =
        grid_of 256 256 v_at"
    by (rule grid_of_cong) (simp add: v_at_def)
  ultimately show ?thesis
    by (simp add: fill_uv_def zeros_grid_of uv_rows_grid_of)
qed

lemma build_mock_result_eq: "build_mock_result = Inr closed_mock_result"
  by (simp add: build_mock_result_def closed_mock_result_def fill_body_parts_zeros fill_uv_painted)

section \<open>The mock's response\<close>

lemma and_then_case: "and_then x f = (case x of Inl e \<Rightarrow> Inl e | Inr a \<Rightarrow> f a)"
  by (cases x) simp_all

lemma mock_analyze_pose_present:
  "lacks_image data = Inr False \<Longrightarrow> mock_analyze_pose (Inr data) = (200, closed_mock_result)"
  by (simp add: mock_analyze_pose_def build_mock_result_eq)

lemma mock_analyze_pose_200:
  assumes "fst (mock_analyze_pose req) = 200"
  shows "snd (mock_analyze_pose req) = closed_mock_result"
proof (cases req)
  case (Inl e)
  with assms show ?thesis by (simp add: mock_analyze_pose_def)
next
  case (Inr data)
  show ?thesis
  proof (cases "lacks_image data")
    case (Inl e)
    with assms Inr show ?thesis by (simp add: mock_analyze_pose_def)
  next
    case Inr': (Inr missing)
    with assms Inr show ?thesis
      by (cases missing) (simp_all add: mock_analyze_pose_def build_mock_result_eq)
  qed
qed

lemma lacks_image_key:
  "''image'' \<in> set (map fst kv) \<Longrightarrow> lacks_image (JObj kv) = Inr False"
  by (auto simp: lacks_image_def)

lemma mock_analyze_pose_with_image:
  "mock_analyze_pose (with_image s) = (200, closed_mock_result)"
  by (simp add: with_image_def mock_analyze_pose_present lacks_image_key)

lemma instance_field_closed:
  "instance_field ''body_parts'' closed_mock_result =
     Some (JArr [int_rows (grid_of 256 256 part_at)])"
  "instance_field ''u_coordinates'' closed_mock_result =
     Some (JArr [float_rows (grid_of 256 256 u_at)])"
  "instance_field ''v_coordinates'' closed_mock_result =
     Some (JArr [float_rows (grid_of 256 256 v_at)])"
  by (simp_all add: instance_field_def closed_mock_result_def mock_result_of_def)

lemma entry_int_rows:
  "r < h \<Longrightarrow> c < w \<Longrightarrow>
   Option.bind (jnth r (int_rows (grid_of h w f))) (jnth c) = Some (JInt (f r c))"
  by (simp add: int_rows_def length_grid_of nth_grid_of)

lemma entry_float_rows:
  "r < h \<Longrightarrow> c < w \<Longrightarrow>
   Option.bind (jnth r (float_rows (grid_of h w f))) (jnth c) = Some (JFloat (f r c))"
  by (simp add: float_rows_def length_grid_of nth_grid_of)

lemma grid_entry_closed:
  assumes "r < 256" and "c < 256"
  shows "grid_entry ''body_parts'' r c closed_mock_result = Some (JInt (part_at r c))"
    and "grid_entry ''u_coordinates'' r c closed_mock_result = Some (JFloat (u_at r c))"
    and "grid_entry ''v_coordinates'' r c closed_mock_result = Some (JFloat (v_at r c))"
  using assms
  by (simp_all add: grid_entry_def instance_field_closed entry_int_rows entry_float_rows)

lemma is_grid_int_rows: "is_grid is_int h w (int_rows (grid_of h w f))"
  by (simp add: int_rows_def grid_of_def list_all_iff)

lemma is_grid_float_rows: "is_grid is_float h w (float_rows (grid_of h w f))"
  by (simp add: float_rows_def grid_of_def list_all_iff)

lemma closed_mock_result_fields:
  "jget ''num_instances'' closed_mock_result = Some (JInt 1)"
  "instance_field ''bbox'' closed_mock_result = Some (JArr [JInt 50, JInt 50, JInt 200, JInt 400])"
  "instance_field ''score'' closed_mock_result = Some (JFloat (98 / 100))"
  "map_option length (instance_list closed_mock_result) = Some 1"
  by (simp_all add: instance_field_def instance_list_def closed_mock_result_def mock_result_of_def)

section \<open>Properties of the mock service\<close>

text \<open>
  Claim C3. In a successful response of the mock, the entry at row \<open>r\<close>, column \<open>c\<close> of
  the body-part grid (\<^verbatim>\<open>body["instances"][0]["body_parts"][0][r][c]\<close>, for \<open>r\<close> and \<open>c\<close> in
  0..255) is 1 in the torso rectangle (rows 100..149, columns 100..199), 10 in the left
  arm (rows 80..99, columns 100..129), 11 in the right arm (rows 150..169, columns
  100..129) and 0 everywhere else; at (120,150) it is 1, at (90,110) it is 10 and at
  (160,110) it is 11.
\<close>

theorem mock_body_parts_regions:
  assumes "fst (mock_analyze_pose req) = 200" and "r < 256" and "c < 256"
  shows "grid_entry ''body_parts'' r c (snd (mock_analyze_pose req)) =
           Some (JInt (if 100 \<le> r \<and> r < 150 \<and> 100 \<le> c \<and> c < 200 then 1
                       else if 80 \<le> r \<and> r < 100 \<and> 100 \<le> c \<and> c < 130 then 10
                       else if 150 \<le> r \<and> r < 170 \<and> 100 \<le> c \<and> c < 130 then 11
                       else 0))
         \<and> grid_entry ''body_parts'' 120 150 (snd (mock_analyze_pose req)) = Some (JInt 1)
         \<and> grid_entry ''body_parts'' 90 110 (snd (mock_analyze_pose req)) = Some (JInt 10)
         \<and> grid_entry ''body_parts'' 160 110 (snd (mock_analyze_pose req)) = Some (JInt 11)"
proof -
  have body: "snd (mock_analyze_pose req) = closed_mock_result"
    using assms(1) by (rule mock_analyze_pose_200)
  have "part_at r c =
          (if 100 \<le> r \<and> r < 150 \<and> 100 \<le> c \<and> c < 200 then 1
           else if 80 \<le> r \<and> r < 100 \<and> 100 \<le> c \<and> c < 130 then 10
           else if 150 \<le> r \<and> r < 170 \<and> 100 \<le> c \<and> c < 130 then 11
           else 0)"
    by (simp add: part_at_def)
  moreover have "part_at 120 150 = 1" "part_at 90 110 = 10" "part_at 160 110 = 11"
    by (simp_all add: part_at_def)
  ultimately show ?thesis
    using assms(2,3) by (simp add: body grid_entry_closed)
qed

theorem mock_body_parts_regions_witness:
  "fst (mock_analyze_pose (with_image ''abc'')) = 200
   \<and> grid_entry ''body_parts'' 101 199 (snd (mock_analyze_pose (with_image ''abc''))) = Some (JInt 1)
   \<and> grid_entry ''body_parts'' 99 129 (snd (mock_analyze_pose (with_image ''abc''))) = Some (JInt 10)
   \<and> grid_entry ''body_parts'' 169 100 (snd (mock_analyze_pose (with_image ''abc''))) = Some (JInt 11)
   \<and> grid_entry ''body_parts'' 99 130 (snd (mock_analyze_pose (with_image ''abc''))) = Some (JInt 0)
   \<and> grid_entry ''body_parts'' 120 150 (snd (mock_analyze_pose (with_image ''abc''))) = Some (JInt 1)"
proof -
  have ok: "fst (mock_analyze_pose (with_image ''abc'')) = 200"
    by (simp add: mock_analyze_pose_with_image)
  show ?thesis
    using ok
      mock_body_parts_regions [OF ok, of 101 199]
      mock_body_parts_regions [OF ok, of 99 129]
      mock_body_parts_regions [OF ok, of 169 100]
      mock_body_parts_regions [OF ok, of 99 130]
    by simp
qed

text \<open>
  Claim C4. In a successful response of the mock, at every pixel whose body-part entry is
  greater than 0 the u-coordinate is \<open>(row mod 100) / 100\<close> and the v-coordinate is
  \<open>(col mod 100) / 100\<close>.
\<close>

theorem mock_uv_inside_body:
  assumes "fst (mock_analyze_pose req) = 200" and "r < 256" and "c < 256"
    and "grid_entry ''body_parts'' r c (snd (mock_analyze_pose req)) = Some (JInt b)"
    and "b > 0"
  shows "grid_entry ''u_coordinates'' r c (snd (mock_analyze_pose req)) =
           Some (JFloat (of_nat (r mod 100) / 100))
         \<and> grid_entry ''v_coordinates'' r c (snd (mock_analyze_pose req)) =
           Some (JFloat (of_nat (c mod 100) / 100))"
proof -
  have body: "snd (mock_analyze_pose req) = closed_mock_result"
    using assms(1) by (rule mock_analyze_pose_200)
  from assms(2-5) have "part_at r c > 0"
    by (simp add: body grid_entry_closed)
  with assms(2,3) show ?thesis
    by (simp add: body grid_entry_closed u_at_def v_at_def)
qed

theorem mock_uv_inside_body_witness:
  "fst (mock_analyze_pose (with_image ''abc'')) = 200
   \<and> grid_entry ''body_parts'' 160 110 (snd (mock_analyze_pose (with_image ''abc''))) = Some (JInt 11)
   \<and> grid_entry ''u_coordinates'' 160 110 (snd (mock_analyze_pose (with_image ''abc''))) =
       Some (JFloat (60 / 100))
   \<and> grid_entry ''v_coordinates'' 160 110 (snd (mock_analyze_pose (with_image ''abc''))) =
       Some (JFloat (10 / 100))"
proof -
  have ok: "fst (mock_analyze_pose (with_image ''abc'')) = 200"
    by (simp add: mock_analyze_pose_with_image)
  have bp: "grid_entry ''body_parts'' 160 110 (snd (mock_analyze_pose (with_image ''abc''))) =
              Some (JInt 11)"
    by (simp add: mock_analyze_pose_with_image grid_entry_closed part_at_def)
  show ?thesis
    using ok bp mock_uv_inside_body [OF ok _ _ bp] by simp
qed

text \<open>
  Claim C10. In a successful response of the mock, at every pixel whose body-part entry
  is 0 (background) the u-coordinate and the v-coordinate are both exactly 0.0.
\<close>

theorem mock_uv_background_zero:
  assumes "fst (mock_analyze_pose req) = 200" and "r < 256" and "c < 256"
    and "grid_entry ''body_parts'' r c (snd (mock_analyze_pose req)) = Some (JInt 0)"
  shows "grid_entry ''u_coordinates'' r c (snd (mock_analyze_pose req)) = Some (JFloat 0)
         \<and> grid_entry ''v_coordinates'' r c (snd (mock_analyze_pose req)) = Some (JFloat 0)"
proof -
  have body: "snd (mock_analyze_pose req) = closed_mock_result"
    using assms(1) by (rule mock_analyze_pose_200)
  from assms(2-4) have "part_at r c = 0"
    by (simp add: body grid_entry_closed)
  with assms(2,3) show ?thesis
    by (simp add: body grid_entry_closed u_at_def v_at_def)
qed

theorem mock_uv_background_zero_witness:
  "fst (mock_analyze_pose (with_image ''abc'')) = 200
   \<and> grid_entry ''body_parts'' 30 250 (snd (mock_analyze_pose (with_image ''abc''))) = Some (JInt 0)
   \<and> grid_entry ''u_coordinates'' 30 250 (snd (mock_analyze_pose (with_image ''abc''))) =
       Some (JFloat 0)
   \<and> grid_entry ''v_coordinates'' 30 250 (snd (mock_analyze_pose (with_image ''abc''))) =
       Some (JFloat 0)"
proof -
  have ok: "fst (mock_analyze_pose (with_image ''abc'')) = 200"
    by (simp add: mock_analyze_pose_with_image)
  have bp: "grid_entry ''body_parts'' 30 250 (snd (mock_analyze_pose (with_image ''abc''))) =
              Some (JInt 0)"
    by (simp add: mock_analyze_pose_with_image grid_entry_closed part_at_def)
  show ?thesis
    using ok bp mock_uv_background_zero [OF ok _ _ bp] by simp
qed

text \<open>
  Claim C7, as stated, fails: the \<^verbatim>\<open>body_parts\<close> field of the mock's instance is not a
  256 by 256 grid. It is a list with one element, and that element is the grid.
\<close>

theorem mock_fields_not_grids:
  "\<not> field_is_grid is_int 256 256 ''body_parts'' (snd (mock_analyze_pose (with_image ''abc'')))"
  by (simp add: mock_analyze_pose_with_image field_is_grid_def instance_field_closed)

text \<open>
  Claim C7, amended. In a successful response of the mock, each of the fields
  \<^verbatim>\<open>body_parts\<close>, \<^verbatim>\<open>u_coordinates\<close> and \<^verbatim>\<open>v_coordinates\<close> is a list of exactly one element,
  and that element is a square grid of 256 rows of 256 cells: integers for
  \<^verbatim>\<open>body_parts\<close>, floats for the other two.
\<close>

theorem mock_fields_wrap_grids:
  assumes "fst (mock_analyze_pose req) = 200"
  shows "field_wraps_grid is_int 256 256 ''body_parts'' (snd (mock_analyze_pose req))
         \<and> field_wraps_grid is_float 256 256 ''u_coordinates'' (snd (mock_analyze_pose req))
         \<and> field_wraps_grid is_float 256 256 ''v_coordinates'' (snd (mock_analyze_pose req))"
proof -
  have body: "snd (mock_analyze_pose req) = closed_mock_result"
    using assms by (rule mock_analyze_pose_200)
  show ?thesis
    by (simp add: body field_wraps_grid_def instance_field_closed
        is_grid_int_rows is_grid_float_rows)
qed

theorem mock_fields_wrap_grids_witness:
  "fst (mock_analyze_pose (with_image ''abc'')) = 200
   \<and> field_wraps_grid is_int 256 256 ''body_parts'' (snd (mock_analyze_pose (with_image ''abc'')))
   \<and> field_wraps_grid is_float 256 256 ''u_coordinates''
       (snd (mock_analyze_pose (with_image ''abc'')))
   \<and> field_wraps_grid is_float 256 256 ''v_coordinates''
       (snd (mock_analyze_pose (with_image ''abc'')))"
proof -
  have ok: "fst (mock_analyze_pose (with_image ''abc'')) = 200"
    by (simp add: mock_analyze_pose_with_image)
  show ?thesis
    using ok mock_fields_wrap_grids [OF ok] by simp
qed

text \<open>
  Claim C8. The mock does not look at the image: any two requests whose parsed body is an
  object with an \<^verbatim>\<open>image\<close> key get the same response, with status 200, one instance,
  the bounding box [50, 50, 200, 400] and the score 0.98.
\<close>

theorem mock_ignores_image:
  assumes "''image'' \<in> set (map fst kv)" and "''image'' \<in> set (map fst kv')"
  shows "mock_analyze_pose (Inr (JObj kv)) = mock_analyze_pose (Inr (JObj kv'))
         \<and> fst (mock_analyze_pose (Inr (JObj kv))) = 200
         \<and> jget ''num_instances'' (snd (mock_analyze_pose (Inr (JObj kv)))) = Some (JInt 1)
         \<and> map_option length (instance_list (snd (mock_analyze_pose (Inr (JObj kv))))) = Some 1
         \<and> instance_field ''bbox'' (snd (mock_analyze_pose (Inr (JObj kv)))) =
             Some (JArr [JInt 50, JInt 50, JInt 200, JInt 400])
         \<and> instance_field ''score'' (snd (mock_analyze_pose (Inr (JObj kv)))) =
             Some (JFloat (98 / 100))"
  using assms
  by (simp add: mock_analyze_pose_present lacks_image_key closed_mock_result_fields)

theorem mock_ignores_image_witness:
  "''image'' \<in> set (map fst [(''image'', JStr ''AAAA'')])
   \<and> ''image'' \<in> set (map fst [(''note'', JInt 7), (''image'', JStr ''not base64 at all!'')])
   \<and> mock_analyze_pose (Inr (JObj [(''image'', JStr ''AAAA'')])) =
       mock_analyze_pose (Inr (JObj [(''note'', JInt 7), (''image'', JStr ''not base64 at all!'')]))"
proof -
  have a: "''image'' \<in> set (map fst [(''image'', JStr ''AAAA'')])" by simp
  have b: "''image'' \<in> set (map fst [(''note'', JInt 7), (''image'', JStr ''not base64 at all!'')])"
    by simp
  show ?thesis
    using a b mock_ignores_image [OF a b] by simp
qed

section \<open>The service's handler\<close>

lemma error_body_has_no_instances: "instance_list (error_body msg) = None"
  by (simp add: instance_list_def error_body_def)

lemma process_image_counts:
  assumes "process_image st img = Inr body" and "instance_list body = Some xs"
  shows "jget ''num_instances'' body = Some (JInt (int (length xs)))"
proof (cases "predictor st")
  case None
  with assms show ?thesis by (simp add: process_image_def)
next
  case (Some p)
  show ?thesis
  proof (cases "p img")
    case (Inl e)
    with assms Some show ?thesis by (simp add: process_image_def)
  next
    case (Inr insts)
    show ?thesis
    proof (cases "pred_densepose insts")
      case None
      with assms Some Inr show ?thesis
        by (auto simp: process_image_def error_body_has_no_instances)
    next
      case Some': (Some dps)
      with assms Some Inr show ?thesis
        by (auto simp: process_image_def Let_def instance_list_def)
    qed
  qed
qed

lemma handle_request_cases:
  "(\<exists>code msg. handle_request lib st req = (code, error_body msg))
   \<or> (\<exists>img body. process_image st img = Inr body \<and> handle_request lib st req = (200, body))"
  by (auto simp: handle_request_def and_then_case split: sum.splits option.splits)

lemma handle_request_counts:
  assumes "instance_list (snd (handle_request lib st req)) = Some xs"
  shows "jget ''num_instances'' (snd (handle_request lib st req)) = Some (JInt (int (length xs)))"
  using handle_request_cases [of lib st req] assms
  by (auto simp: error_body_has_no_instances dest: process_image_counts)

lemma analyze_pose_counts:
  assumes "instance_list (snd (snd (analyze_pose lib st req))) = Some xs"
  shows "jget ''num_instances'' (snd (snd (analyze_pose lib st req))) =
           Some (JInt (int (length xs)))"
  using assms
  by (auto simp: analyze_pose_def error_body_has_no_instances handle_request_counts
      split: option.splits sum.splits)

lemma mock_analyze_pose_cases:
  "(\<exists>code msg. mock_analyze_pose req = (code, error_body msg))
   \<or> mock_analyze_pose req = (200, closed_mock_result)"
  by (auto simp: mock_analyze_pose_def and_then_case build_mock_result_eq split: sum.splits)

lemma closed_mock_result_counts:
  "instance_list closed_mock_result = Some xs \<Longrightarrow>
   jget ''num_instances'' closed_mock_result = Some (JInt (int (length xs)))"
  by (auto simp: instance_list_def closed_mock_result_def mock_result_of_def)

lemma mock_analyze_pose_counts:
  assumes "instance_list (snd (mock_analyze_pose req)) = Some xs"
  shows "jget ''num_instances'' (snd (mock_analyze_pose req)) = Some (JInt (int (length xs)))"
  using mock_analyze_pose_cases [of req] assms
  by (auto simp: error_body_has_no_instances closed_mock_result_counts)

lemma lacks_image_absent:
  assumes "data = JNull \<or> \<not> truthy data \<or> (data = JObj kv \<and> ''image'' \<notin> set (map fst kv))"
  shows "lacks_image data = Inr True"
  using assms by (auto simp: lacks_image_def)

lemma handle_request_absent:
  "lacks_image data = Inr True \<Longrightarrow>
   handle_request lib st (Inr data) = (400, error_body missing_image_message)"
  by (simp add: handle_request_def)

lemma handle_request_inference_raises:
  assumes "predictor st = Some p" and "lacks_image data = Inr False"
    and "get_image data = Inr field" and "strip_data_url field = Inr s"
    and "b64decode lib s = Inr bytes" and "imdecode lib bytes = Inr (Some img)"
    and "p img = Inl e"
  shows "handle_request lib st (Inr data) =
           (500, error_body (''Error processing image: '' @ exn_str e))"
  using assms by (simp add: handle_request_def process_image_def)

lemma analyze_pose_ready:
  assumes "predictor st = Some p \<or> load_model lib = Inr p"
  shows "\<exists>st' q. predictor st' = Some q \<and> (q = p \<or> predictor st = Some q) \<and>
           analyze_pose lib st req = (st', handle_request lib st' req)"
  using assms
  by (cases "predictor st")
     (auto simp: analyze_pose_def setup_densepose_predictor_def)

lemma stub_run_one_person:
  "analyze_pose (stub_libraries (Inr (finds one_person))) \<lparr>predictor = None\<rparr> (with_image ''AAAA'') =
     (\<lparr>predictor = Some (finds one_person)\<rparr>,
      200,
      JObj [(''num_instances'', JInt 1),
            (''instances'', JArr [JObj [
               (''body_parts'', JArr [JArr [JInt 1]]),
               (''u_coordinates'', JArr [JArr [JFloat (1 / 2)]]),
               (''v_coordinates'', JArr [JArr [JFloat (1 / 4)]]),
               (''bbox'', JArr [JFloat 10, JFloat 20, JFloat 110, JFloat 220]),
               (''score'', JFloat (9 / 10))]])])"
  by (simp add: analyze_pose_def setup_densepose_predictor_def stub_libraries_def
      handle_request_def with_image_def lacks_image_def stub_b64decode_def stub_imdecode_def
      process_image_def finds_def one_person_def instance_dict_def)

lemma analyze_pose_run:
  assumes "predictor st = Some p \<or> predictor st = None \<and> load_model lib = Inr p"
  shows "\<exists>st'. predictor st' = Some p \<and>
           analyze_pose lib st req = (st', handle_request lib st' req)"
proof (cases "predictor st")
  case None
  with assms have "load_model lib = Inr p" by simp
  with None have "predictor (st\<lparr>predictor := Some p\<rparr>) = Some p \<and>
      analyze_pose lib st req =
        (st\<lparr>predictor := Some p\<rparr>, handle_request lib (st\<lparr>predictor := Some p\<rparr>) req)"
    by (simp add: analyze_pose_def setup_densepose_predictor_def)
  then show ?thesis by blast
next
  case (Some q)
  with assms have "q = p" by simp
  with Some have "predictor st = Some p \<and>
      analyze_pose lib st req = (st, handle_request lib st req)"
    by (simp add: analyze_pose_def)
  then show ?thesis by blast
qed

lemma contains_str_suffix: "contains_str (xs @ ys) ys"
proof (induction xs)
  case Nil
  show ?case by (cases ys) simp_all
next
  case (Cons x xs)
  then show ?case by simp
qed

lemma closed_mock_result_no_error: "jget ''error'' closed_mock_result = None"
  by (simp add: closed_mock_result_def mock_result_of_def)

section \<open>Properties of the service and of both backends\<close>

text \<open>
  Claim C1, as stated, fails. The string \<^verbatim>\<open>abc\<close> is not valid base64 (the decoder raises
  \<^verbatim>\<open>Incorrect padding\<close>), yet the mock answers 200 and the service answers 500; neither
  answers 400.
\<close>

theorem bad_base64_not_400:
  "b64decode (stub_libraries (Inr (finds one_person))) ''abc'' =
     Inl (LibraryError ''Incorrect padding'')
   \<and> fst (mock_analyze_pose (with_image ''abc'')) = 200
   \<and> fst (snd (analyze_pose (stub_libraries (Inr (finds one_person))) \<lparr>predictor = None\<rparr>
                (with_image ''abc''))) = 500"
proof -
  have "fst (mock_analyze_pose (with_image ''abc'')) = 200"
    by (simp add: mock_analyze_pose_with_image)
  moreover have "b64decode (stub_libraries (Inr (finds one_person))) ''abc'' =
                   Inl (LibraryError ''Incorrect padding'')"
    by (simp add: stub_libraries_def stub_b64decode_def)
  moreover have "fst (snd (analyze_pose (stub_libraries (Inr (finds one_person)))
                    \<lparr>predictor = None\<rparr> (with_image ''abc''))) = 500"
    by (simp add: analyze_pose_def setup_densepose_predictor_def stub_libraries_def
        handle_request_def with_image_def lacks_image_def stub_b64decode_def)
  ultimately show ?thesis by simp
qed

text \<open>
  Claim C1, amended. The mock never reads the image: every request whose body is an object
  with an \<^verbatim>\<open>image\<close> string gets status 200 and the fixed result (one instance, no
  \<^verbatim>\<open>error\<close> field), whatever the string is; the response is the one a valid base64 string
  gets.
\<close>

theorem mock_accepts_any_image_string:
  assumes "map_of kv ''image'' = Some (JStr s)"
  shows "fst (mock_analyze_pose (Inr (JObj kv))) = 200
         \<and> jget ''error'' (snd (mock_analyze_pose (Inr (JObj kv)))) = None
         \<and> jget ''num_instances'' (snd (mock_analyze_pose (Inr (JObj kv)))) = Some (JInt 1)
         \<and> map_option length (instance_list (snd (mock_analyze_pose (Inr (JObj kv))))) = Some 1
         \<and> mock_analyze_pose (Inr (JObj kv)) =
             mock_analyze_pose (Inr (JObj [(''image'', JStr ''AAAA'')]))"
proof -
  from assms have "(''image'', JStr s) \<in> set kv"
    by (rule map_of_SomeD)
  then have "''image'' \<in> set (map fst kv)"
    by force
  then have run: "mock_analyze_pose (Inr (JObj kv)) = (200, closed_mock_result)"
    by (simp add: mock_analyze_pose_present lacks_image_key)
  have valid: "mock_analyze_pose (Inr (JObj [(''image'', JStr ''AAAA'')])) =
                 (200, closed_mock_result)"
    by (simp add: mock_analyze_pose_present lacks_image_key)
  show ?thesis
    by (simp add: run valid closed_mock_result_fields closed_mock_result_no_error)
qed

theorem mock_accepts_any_image_string_witness:
  "map_of [(''image'', JStr ''abc'')] ''image'' = Some (JStr ''abc'')
   \<and> fst (mock_analyze_pose (Inr (JObj [(''image'', JStr ''abc'')]))) = 200
   \<and> jget ''error'' (snd (mock_analyze_pose (Inr (JObj [(''image'', JStr ''abc'')])))) = None
   \<and> jget ''num_instances'' (snd (mock_analyze_pose (Inr (JObj [(''image'', JStr ''abc'')])))) =
       Some (JInt 1)
   \<and> mock_analyze_pose (Inr (JObj [(''image'', JStr ''abc'')])) =
       mock_analyze_pose (Inr (JObj [(''image'', JStr ''AAAA'')]))"
proof -
  have a: "map_of [(''image'', JStr ''abc'')] ''image'' = Some (JStr ''abc'')"
    by simp
  show ?thesis
    using a mock_accepts_any_image_string [OF a] by blast
qed

text \<open>
  Claim C2 says that a 200 answer of the service always carries \<^verbatim>\<open>num_instances\<close> and
  \<^verbatim>\<open>instances\<close>. The code does not do that: when the model's output has no
  \<^verbatim>\<open>pred_densepose\<close> field, \<^verbatim>\<open>process_image\<close> returns a bare error object and the handler
  sends it with status 200. Here the handler is run on such an output.
\<close>

theorem no_predictions_answer_200:
  "snd (analyze_pose (stub_libraries (Inr (finds nobody))) \<lparr>predictor = None\<rparr>
          (with_image ''AAAA'')) =
     (200, error_body ''No DensePose predictions available for this image'')
   \<and> jget ''num_instances'' (error_body ''No DensePose predictions available for this image'') =
       None
   \<and> jget ''instances'' (error_body ''No DensePose predictions available for this image'') =
       None"
  by (simp add: analyze_pose_def setup_densepose_predictor_def stub_libraries_def
      handle_request_def with_image_def lacks_image_def stub_b64decode_def stub_imdecode_def
      process_image_def finds_def nobody_def error_body_def)

text \<open>
  Claim C5, as stated, fails for the service: the predictor is set up before the request
  is looked at, so a request with no JSON body (\<^verbatim>\<open>None\<close>) gets 500, not 400, when the
  predictor is not there yet and setting it up raises.
\<close>

theorem missing_image_before_setup:
  "truthy JNull = False
   \<and> snd (analyze_pose (stub_libraries (Inl (LibraryError ''weights not found'')))
            \<lparr>predictor = None\<rparr> (Inr JNull)) =
       (500, error_body ''Failed to initialize DensePose predictor: weights not found'')"
  by (simp add: analyze_pose_def setup_densepose_predictor_def stub_libraries_def)

text \<open>
  Claim C5, amended. When the parsed body is \<^verbatim>\<open>None\<close>, is empty (false as a Python
  value), or is an object without the key \<^verbatim>\<open>image\<close>, the mock answers 400 with the error
  message, and so does the service whenever its predictor is there (already set up, or set
  up by this request). The answer is the same for every predictor and every decoder, so
  neither inference nor decoding has a part in it.
\<close>

theorem missing_image_is_400:
  assumes "data = JNull \<or> \<not> truthy data \<or> (data = JObj kv \<and> ''image'' \<notin> set (map fst kv))"
  shows "mock_analyze_pose (Inr data) = (400, error_body missing_image_message)
         \<and> (predictor st = Some p \<or> load_model lib = Inr p \<longrightarrow>
              snd (analyze_pose lib st (Inr data)) = (400, error_body missing_image_message))"
proof -
  have lacks: "lacks_image data = Inr True"
    using assms by (rule lacks_image_absent)
  have mock: "mock_analyze_pose (Inr data) = (400, error_body missing_image_message)"
    by (simp add: mock_analyze_pose_def lacks)
  have real: "snd (analyze_pose lib st (Inr data)) = (400, error_body missing_image_message)"
    if "predictor st = Some p \<or> load_model lib = Inr p"
    using analyze_pose_ready [OF that, of "Inr data"]
    by (auto simp: handle_request_absent [OF lacks])
  show ?thesis
    using mock real by simp
qed

theorem missing_image_is_400_witness:
  "mock_analyze_pose (Inr (JObj [(''picture'', JStr ''AAAA'')])) =
     (400, error_body missing_image_message)
   \<and> snd (analyze_pose (stub_libraries (Inl (LibraryError ''weights not found'')))
            \<lparr>predictor = Some out_of_memory\<rparr> (Inr (JObj [(''picture'', JStr ''AAAA'')]))) =
       (400, error_body missing_image_message)
   \<and> mock_analyze_pose (Inr JNull) = (400, error_body missing_image_message)"
proof -
  have a: "JObj [(''picture'', JStr ''AAAA'')] = JNull
           \<or> \<not> truthy (JObj [(''picture'', JStr ''AAAA'')])
           \<or> (JObj [(''picture'', JStr ''AAAA'')] = JObj [(''picture'', JStr ''AAAA'')]
              \<and> ''image'' \<notin> set (map fst [(''picture'', JStr ''AAAA'')]))"
    by simp
  have b: "JNull = JNull \<or> \<not> truthy JNull
           \<or> (JNull = JObj [] \<and> ''image'' \<notin> set (map fst ([] :: (string \<times> json) list)))"
    by simp
  have c: "predictor \<lparr>predictor = Some out_of_memory\<rparr> = Some out_of_memory" by simp
  show ?thesis
    using c
      missing_image_is_400 [OF a, of "\<lparr>predictor = Some out_of_memory\<rparr>" out_of_memory
        "stub_libraries (Inl (LibraryError ''weights not found''))"]
      missing_image_is_400 [OF b, of "\<lparr>predictor = Some out_of_memory\<rparr>" out_of_memory
        "stub_libraries (Inl (LibraryError ''weights not found''))"]
    by simp
qed

text \<open>
  Claim C6. In every response of either backend that has an \<^verbatim>\<open>instances\<close> array, the
  field \<^verbatim>\<open>num_instances\<close> is the length of that array.
\<close>

theorem num_instances_is_length:
  "(instance_list (snd (mock_analyze_pose req)) = Some xs \<longrightarrow>
      jget ''num_instances'' (snd (mock_analyze_pose req)) = Some (JInt (int (length xs))))
   \<and> (instance_list (snd (snd (analyze_pose lib st req'))) = Some ys \<longrightarrow>
      jget ''num_instances'' (snd (snd (analyze_pose lib st req'))) =
        Some (JInt (int (length ys))))"
  by (simp add: mock_analyze_pose_counts analyze_pose_counts)

theorem num_instances_is_length_witness:
  "map_option length (instance_list (snd (mock_analyze_pose (with_image ''abc'')))) = Some 1
   \<and> jget ''num_instances'' (snd (mock_analyze_pose (with_image ''abc''))) = Some (JInt 1)
   \<and> map_option length (instance_list (snd (snd (analyze_pose
         (stub_libraries (Inr (finds one_person))) \<lparr>predictor = None\<rparr> (with_image ''AAAA''))))) =
       Some 1
   \<and> jget ''num_instances'' (snd (snd (analyze_pose
         (stub_libraries (Inr (finds one_person))) \<lparr>predictor = None\<rparr> (with_image ''AAAA'')))) =
       Some (JInt 1)"
proof -
  obtain xs where xs: "instance_list (snd (mock_analyze_pose (with_image ''abc''))) = Some xs"
    and lxs: "length xs = 1"
    by (simp add: mock_analyze_pose_with_image instance_list_def closed_mock_result_def
        mock_result_of_def)
  obtain ys where ys: "instance_list (snd (snd (analyze_pose
         (stub_libraries (Inr (finds one_person))) \<lparr>predictor = None\<rparr> (with_image ''AAAA'')))) =
       Some ys" and lys: "length ys = 1"
    by (simp add: stub_run_one_person instance_list_def)
  show ?thesis
    using xs lxs ys lys
      num_instances_is_length [of "with_image ''abc''" xs
        "stub_libraries (Inr (finds one_person))" "\<lparr>predictor = None\<rparr>" "with_image ''AAAA''" ys]
    by simp
qed

text \<open>
  Claim C9. In the service, when setting up the model raises, the answer is status 500 and
  the body is the object whose only field \<^verbatim>\<open>error\<close> is the string
  \<^verbatim>\<open>Failed to initialize DensePose predictor: <exception text>\<close>; when the request reaches
  the inference call and that call raises, the answer is status 500 and the body is the
  object whose only field \<^verbatim>\<open>error\<close> is \<^verbatim>\<open>Error processing image: <exception text>\<close>. In
  both the exception's text is a substring of the message.
\<close>

theorem failures_answer_500:
  "(predictor st = None \<and> load_model lib = Inl e \<longrightarrow>
      snd (analyze_pose lib st req) =
        (500, JObj [(''error'',
                     JStr (''Failed to initialize DensePose predictor: '' @ exn_str e))])
      \<and> contains_str (''Failed to initialize DensePose predictor: '' @ exn_str e) (exn_str e))
   \<and> ((predictor st = Some p \<or> predictor st = None \<and> load_model lib = Inr p)
       \<and> lacks_image data = Inr False \<and> get_image data = Inr field
       \<and> strip_data_url field = Inr s \<and> b64decode lib s = Inr bytes
       \<and> imdecode lib bytes = Inr (Some img) \<and> p img = Inl e' \<longrightarrow>
      snd (analyze_pose lib st (Inr data)) =
        (500, JObj [(''error'', JStr (''Error processing image: '' @ exn_str e'))])
      \<and> contains_str (''Error processing image: '' @ exn_str e') (exn_str e'))"
proof -
  have init: "snd (analyze_pose lib st req) =
                (500, JObj [(''error'',
                             JStr (''Failed to initialize DensePose predictor: '' @ exn_str e))])"
    if "predictor st = None" and "load_model lib = Inl e"
    using that by (simp add: analyze_pose_def setup_densepose_predictor_def error_body_def)
  have infer: "snd (analyze_pose lib st (Inr data)) =
                 (500, JObj [(''error'', JStr (''Error processing image: '' @ exn_str e'))])"
    if avail: "predictor st = Some p \<or> predictor st = None \<and> load_model lib = Inr p"
      and path: "lacks_image data = Inr False" "get_image data = Inr field"
        "strip_data_url field = Inr s" "b64decode lib s = Inr bytes"
        "imdecode lib bytes = Inr (Some img)" "p img = Inl e'"
  proof -
    from analyze_pose_run [OF avail] obtain st' where st': "predictor st' = Some p"
      and run: "analyze_pose lib st (Inr data) = (st', handle_request lib st' (Inr data))"
      by blast
    show ?thesis
      by (simp add: run handle_request_inference_raises [OF st' path] error_body_def)
  qed
  have text1: "contains_str (''Failed to initialize DensePose predictor: '' @ exn_str e)
                 (exn_str e)"
    by (rule contains_str_suffix)
  have text2: "contains_str (''Error processing image: '' @ exn_str e') (exn_str e')"
    by (rule contains_str_suffix)
  show ?thesis
    using init infer text1 text2 by blast
qed

theorem failures_answer_500_witness:
  "snd (analyze_pose (stub_libraries (Inl (LibraryError ''weights not found'')))
          \<lparr>predictor = None\<rparr> (with_image ''AAAA'')) =
     (500, JObj [(''error'',
                  JStr ''Failed to initialize DensePose predictor: weights not found'')])
   \<and> snd (analyze_pose (stub_libraries (Inr out_of_memory)) \<lparr>predictor = None\<rparr>
            (with_image ''AAAA'')) =
       (500, JObj [(''error'', JStr ''Error processing image: out of memory'')])"
proof -
  let ?bad = "stub_libraries (Inl (LibraryError ''weights not found''))"
  let ?lib = "stub_libraries (Inr out_of_memory)"
  let ?st = "\<lparr>predictor = None\<rparr>"
  let ?data = "JObj [(''image'', JStr ''AAAA'')]"
  have a: "predictor ?st = None \<and> load_model ?bad = Inl (LibraryError ''weights not found'')"
    by (simp add: stub_libraries_def)
  have b: "(predictor ?st = Some out_of_memory
            \<or> predictor ?st = None \<and> load_model ?lib = Inr out_of_memory)
           \<and> lacks_image ?data = Inr False \<and> get_image ?data = Inr (JStr ''AAAA'')
           \<and> strip_data_url (JStr ''AAAA'') = Inr ''AAAA''
           \<and> b64decode ?lib ''AAAA'' = Inr (map of_char ''AAAA'')
           \<and> imdecode ?lib (map of_char ''AAAA'') = Inr (Some [[map of_char ''AAAA'']])
           \<and> out_of_memory [[map of_char ''AAAA'']] = Inl (LibraryError ''out of memory'')"
    by (simp add: stub_libraries_def stub_b64decode_def stub_imdecode_def lacks_image_def
        out_of_memory_def)
  have c: "snd (analyze_pose ?bad ?st (with_image ''AAAA'')) =
             (500, JObj [(''error'',
                          JStr ''Failed to initialize DensePose predictor: weights not found'')])"
    using a failures_answer_500 [of ?st ?bad "LibraryError ''weights not found''"
        "with_image ''AAAA''"]
    by simp
  have d: "snd (analyze_pose ?lib ?st (Inr ?data)) =
             (500, JObj [(''error'', JStr ''Error processing image: out of memory'')])"
    using b failures_answer_500 [of ?st ?lib _ _ out_of_memory ?data "JStr ''AAAA''" "''AAAA''"
        "map of_char ''AAAA''" "[[map of_char ''AAAA'']]" "LibraryError ''out of memory''"]
    by simp
  show ?thesis
    using c d by (simp add: with_image_def)
qed

end
